theory Spec2Isabelle
  imports
    Main
    "HOL-Library.Char_ord"
    "HOL-Library.List_Lexorder"
    "HOL-Library.Sublist"
    "HOL-Library.Multiset"
begin

section \<open>JavaScript values and strings\<close>

text \<open>
  The cache (apiCache.js) and the orchestrator (dataManager.js) work on JSON data that comes
  from a spreadsheet service: a payload is an array of flat row objects. A row is kept as
  the list of its own properties in order (keys distinct); a property value is \<open>null\<close>,
  a boolean, an integer number or a string. A property that is absent reads as
  \<open>undefined\<close>, which is \<open>None\<close> of \<open>map_of\<close> here. Strings are lists of 8-bit
  characters: the model covers the code units up to 255, compared by their code as
  JavaScript compares UTF-16 code units.
\<close>

datatype jsval = JNull | JBool bool | JNum int | JStr string

type_synonym row = "(string \<times> jsval) list"

definition digit_char :: "nat \<Rightarrow> char" where
  "digit_char n = char_of (48 + n)"

function nat_to_string :: "nat \<Rightarrow> string" where
  "nat_to_string n =
     (if n < 10 then [digit_char n] else nat_to_string (n div 10) @ [digit_char (n mod 10)])"
  by pat_completeness auto
termination
  by (relation "measure id") auto

definition int_to_string :: "int \<Rightarrow> string" where
  "int_to_string i = (if i < 0 then CHR ''-'' # nat_to_string (nat (- i)) else nat_to_string (nat i))"

text \<open>\<open>String(v)\<close>, which a template literal \<open>`${v}`\<close> applies.\<close>

fun to_string :: "jsval \<Rightarrow> string" where
  "to_string JNull = ''null''"
| "to_string (JBool b) = (if b then ''true'' else ''false'')"
| "to_string (JNum i) = int_to_string i"
| "to_string (JStr s) = s"

text \<open>
  The string an array element contributes to \<open>Array.prototype.join\<close> (and so to
  \<open>Array.prototype.toString\<close>): \<open>null\<close> contributes the empty string.
\<close>

fun join_string :: "jsval \<Rightarrow> string" where
  "join_string JNull = []"
| "join_string v = to_string v"

text \<open>Truthiness of a value, as \<open>!v\<close> and \<open>v && ...\<close> test it.\<close>

fun truthy :: "jsval \<Rightarrow> bool" where
  "truthy JNull = False"
| "truthy (JBool b) = b"
| "truthy (JNum i) = (i \<noteq> 0)"
| "truthy (JStr s) = (s \<noteq> [])"

definition lower_char :: "char \<Rightarrow> char" where
  "lower_char c =
     (let n = (of_char c :: nat) in if 65 \<le> n \<and> n \<le> 90 then char_of (n + 32) else c)"

definition toLowerCase :: "string \<Rightarrow> string" where
  "toLowerCase s = map lower_char s"

text \<open>\<open>s.includes(q)\<close>: \<open>q\<close> occurs in \<open>s\<close> as a contiguous substring.\<close>

fun includes_str :: "string \<Rightarrow> string \<Rightarrow> bool" where
  "includes_str [] q = (q = [])"
| "includes_str (c # cs) q = (prefix q (c # cs) \<or> includes_str cs q)"

text \<open>\<open>parts.join('&')\<close>.\<close>

fun join_amp :: "string list \<Rightarrow> string" where
  "join_amp [] = []"
| "join_amp [x] = x"
| "join_amp (x # y # ys) = x @ ''&'' @ join_amp (y # ys)"

text \<open>\<open>{...member, ...updates}\<close>: the properties of \<open>member\<close> in their order, each
  overwritten by \<open>updates\<close> where it has the key, followed by the new keys of \<open>updates\<close>.\<close>

definition spread :: "row \<Rightarrow> row \<Rightarrow> row" where
  "spread member updates =
     map (\<lambda>(k, v). (k, case map_of updates k of None \<Rightarrow> v | Some v' \<Rightarrow> v')) member
     @ filter (\<lambda>(k, v). map_of member k = None) updates"


section \<open>apiCache.js: the response cache\<close>

definition DEFAULT_TTL :: int where
  "DEFAULT_TTL = 60 * 60 * 1000"

definition CACHE_KEY_PREFIX :: string where
  "CACHE_KEY_PREFIX = ''api_cache_''"

text \<open>
  A filter object is the list \<open>Object.entries(filters)\<close> yields (own properties in
  insertion order, for keys that are not array indices). \<open>.sort()\<close> without a comparator
  orders the \<open>[k, v]\<close> pairs by their string form \<open>k + "," + v\<close> and is stable, which
  is what \<open>sort_key\<close> computes.
\<close>

type_synonym filters = "(string \<times> jsval) list"

definition entry_string :: "string \<times> jsval \<Rightarrow> string" where
  "entry_string e = fst e @ '','' @ join_string (snd e)"

definition getCacheKey :: "string \<Rightarrow> filters \<Rightarrow> string" where
  "getCacheKey endpoint fs =
     (let filterStr = join_amp (map (\<lambda>(k, v). k @ ''='' @ to_string v) (sort_key entry_string fs))
      in CACHE_KEY_PREFIX @ endpoint @ (if filterStr \<noteq> [] then ''_'' @ filterStr else []))"

text \<open>
  The cache object holds \<open>memory\<close> and \<open>listeners\<close>. A subscriber callback is known by
  its reference (a number); whether a call of it throws is given by the environment.
  Two further fields record what the code does to the outside: \<open>calls\<close> is the list of
  requests handed to the remote transport (the global \<open>fetch\<close>), \<open>fired\<close> the list of
  callback invocations with their argument, both in order.
\<close>

type_synonym callback = nat

record 'd entry =
  data :: 'd
  expiresAt :: int

record 'b request =
  url :: string
  http_method :: string
  headers :: "(string \<times> string) list"
  body :: "'b option"

record ('d, 'b) api_cache =
  memory :: "string \<rightharpoonup> 'd entry"
  listeners :: "string \<rightharpoonup> callback list"
  calls :: "'b request list"
  fired :: "(callback \<times> 'd) list"

text \<open>The constructor: \<open>this.memory = {}; this.listeners = {}\<close>; nothing has happened yet.\<close>

definition new_cache :: "('d, 'b) api_cache" where
  "new_cache = \<lparr>memory = Map.empty, listeners = Map.empty, calls = [], fired = []\<rparr>"

text \<open>
  What the transport answers: the promise rejects (network failure), or it resolves to a
  response with \<open>ok\<close>, \<open>statusText\<close> and a body that \<open>response.json()\<close> decodes
  (\<open>Inr\<close>) or fails to decode (\<open>Inl\<close>, the rejection reason).
\<close>

datatype 'd outcome = Rejected string | Response bool string "string + 'd"

text \<open>
  What a call may raise: a rejection passed on from the transport, a \<open>new Error(message)\<close>
  of the code itself (a \<open>TypeError\<close> of the runtime included), or whatever a subscriber
  callback threw.
\<close>

datatype error = Rejection string | Error string | Raised callback

record ('d, 'b) options =
  ttl :: int
  forceRefresh :: bool
  filters :: filters
  method_opt :: string
  body_opt :: "'b option"

definition default_options :: "('d, 'b) options" where
  "default_options =
     \<lparr>ttl = DEFAULT_TTL, forceRefresh = False, filters = [], method_opt = ''GET'', body_opt = None\<rparr>"

text \<open>
  The surroundings of one \<open>fetch\<close>: the clock read by the validity check, the answer of
  the transport, the clock read when the answer is stored, and which callbacks throw.
\<close>

record 'd env =
  now_check :: int
  reply :: "'d outcome"
  now_store :: int
  throws :: "callback \<Rightarrow> 'd \<Rightarrow> bool"

definition isValidCache ::
  "string \<Rightarrow> int \<Rightarrow> ('d, 'b) api_cache \<Rightarrow> bool \<times> ('d, 'b) api_cache" where
  "isValidCache key now st =
     (case memory st key of
        None \<Rightarrow> (False, st)
      | Some e \<Rightarrow>
          if expiresAt e \<noteq> 0 \<and> now > expiresAt e
          then (False, st\<lparr>memory := (memory st)(key := None)\<rparr>)
          else (True, st))"

text \<open>\<open>getCached\<close> returns \<open>null\<close> (here \<open>None\<close>) when there is no entry.\<close>

definition getCached :: "string \<Rightarrow> ('d, 'b) api_cache \<Rightarrow> 'd option" where
  "getCached key st = (case memory st key of Some e \<Rightarrow> Some (data e) | None \<Rightarrow> None)"

definition setCached ::
  "string \<Rightarrow> 'd \<Rightarrow> int \<Rightarrow> int \<Rightarrow> ('d, 'b) api_cache \<Rightarrow> ('d, 'b) api_cache" where
  "setCached key d t now st =
     st\<lparr>memory := (memory st)(key \<mapsto> \<lparr>data = d, expiresAt = now + t\<rparr>)\<rparr>"

definition invalidate :: "string \<Rightarrow> filters \<Rightarrow> ('d, 'b) api_cache \<Rightarrow> ('d, 'b) api_cache" where
  "invalidate endpoint fs st =
     (let cacheKey = getCacheKey endpoint fs in st\<lparr>memory := (memory st)(cacheKey := None)\<rparr>)"

definition invalidatePattern :: "string \<Rightarrow> ('d, 'b) api_cache \<Rightarrow> ('d, 'b) api_cache" where
  "invalidatePattern pattern st =
     st\<lparr>memory := (\<lambda>key. if includes_str key pattern then None else memory st key)\<rparr>"

definition clear :: "('d, 'b) api_cache \<Rightarrow> ('d, 'b) api_cache" where
  "clear st = st\<lparr>memory := Map.empty\<rparr>"

text \<open>
  \<open>onUpdate\<close> appends the callback to the list of the key and returns the unsubscribe
  closure, which is \<open>unsubscribe cacheKey callback\<close>: it keeps the callbacks that are
  not the same reference. (A key without a list makes the closure fail with a TypeError;
  \<open>onUpdate\<close> has created the list before the closure exists.)
\<close>

definition unsubscribe ::
  "string \<Rightarrow> callback \<Rightarrow> ('d, 'b) api_cache \<Rightarrow> error + ('d, 'b) api_cache" where
  "unsubscribe cacheKey callback st =
     (case listeners st cacheKey of
        None \<Rightarrow> Inl (Error ''TypeError: Cannot read properties of undefined'')
      | Some cbs \<Rightarrow>
          Inr (st\<lparr>listeners := (listeners st)(cacheKey \<mapsto> filter (\<lambda>cb. cb \<noteq> callback) cbs)\<rparr>))"

definition onUpdate ::
  "string \<Rightarrow> callback \<Rightarrow> ('d, 'b) api_cache \<Rightarrow>
     (('d, 'b) api_cache \<Rightarrow> error + ('d, 'b) api_cache) \<times> ('d, 'b) api_cache" where
  "onUpdate cacheKey callback st =
     (let cbs = (case listeners st cacheKey of None \<Rightarrow> [] | Some cbs \<Rightarrow> cbs)
      in (unsubscribe cacheKey callback,
          st\<lparr>listeners := (listeners st)(cacheKey \<mapsto> cbs @ [callback])\<rparr>))"

text \<open>
  \<open>forEach(callback => callback(data))\<close>: each call is recorded; a call that throws ends
  the loop, and the exception leaves \<open>notifyListeners\<close>.
\<close>

fun forEach_call ::
  "(callback \<Rightarrow> 'd \<Rightarrow> bool) \<Rightarrow> callback list \<Rightarrow> 'd \<Rightarrow> ('d, 'b) api_cache \<Rightarrow>
     error option \<times> ('d, 'b) api_cache" where
  "forEach_call thr [] d st = (None, st)"
| "forEach_call thr (cb # cbs) d st =
     (let st' = st\<lparr>fired := fired st @ [(cb, d)]\<rparr>
      in if thr cb d then (Some (Raised cb), st') else forEach_call thr cbs d st')"

definition notifyListeners ::
  "string \<Rightarrow> 'd \<Rightarrow> (callback \<Rightarrow> 'd \<Rightarrow> bool) \<Rightarrow> ('d, 'b) api_cache \<Rightarrow>
     error option \<times> ('d, 'b) api_cache" where
  "notifyListeners cacheKey d thr st =
     (case listeners st cacheKey of
        None \<Rightarrow> (None, st)
      | Some cbs \<Rightarrow> forEach_call thr cbs d st)"

text \<open>
  The transport call of \<open>fetch\<close> fails when the promise rejects, the response is not
  \<open>ok\<close>, or its body does not decode: the three ways into the \<open>catch\<close> block that do
  not come from a subscriber.
\<close>

fun transport_failed :: "'d outcome \<Rightarrow> bool" where
  "transport_failed (Rejected reason) = True"
| "transport_failed (Response ok statusText json) = (if ok then isl json else True)"

text \<open>The \<open>catch\<close> block of \<open>fetch\<close>: the entry of the key if there is one, else rethrow.\<close>

definition fetch_catch ::
  "string \<Rightarrow> error \<Rightarrow> ('d, 'b) api_cache \<Rightarrow> (error + 'd option) \<times> ('d, 'b) api_cache" where
  "fetch_catch cacheKey err st =
     (case memory st cacheKey of
        Some staleData \<Rightarrow> (Inr (Some (data staleData)), st)
      | None \<Rightarrow> (Inl err, st))"

text \<open>What \<open>fetch(endpoint, fetchOptions)\<close> hands to the transport; a \<open>null\<close> body is left out.\<close>

definition transport_request :: "string \<Rightarrow> ('d, 'b) options \<Rightarrow> 'b request" where
  "transport_request endpoint opts =
     \<lparr>url = endpoint, http_method = method_opt opts,
      headers = [(''Content-Type'', ''application/json'')], body = body_opt opts\<rparr>"

text \<open>The \<open>try\<close> block of \<open>fetch\<close>, from the transport call on.\<close>

definition fetch_try ::
  "string \<Rightarrow> string \<Rightarrow> ('d, 'b) options \<Rightarrow> 'd env \<Rightarrow> ('d, 'b) api_cache \<Rightarrow>
     (error + 'd option) \<times> ('d, 'b) api_cache" where
  "fetch_try endpoint cacheKey opts env st =
     (let st1 = st\<lparr>calls := calls st @ [transport_request endpoint opts]\<rparr>
      in case reply env of
           Rejected reason \<Rightarrow> fetch_catch cacheKey (Rejection reason) st1
         | Response ok statusText json \<Rightarrow>
             if \<not> ok then fetch_catch cacheKey (Error (''API Error: '' @ statusText)) st1
             else (case json of
                     Inl reason \<Rightarrow> fetch_catch cacheKey (Rejection reason) st1
                   | Inr d \<Rightarrow>
                       let st2 = setCached cacheKey d (ttl opts) (now_store env) st1;
                           (thrown, st3) = notifyListeners cacheKey d (throws env) st2
                       in (case thrown of
                             None \<Rightarrow> (Inr (Some d), st3)
                           | Some err \<Rightarrow> fetch_catch cacheKey err st3)))"

definition fetch ::
  "string \<Rightarrow> ('d, 'b) options \<Rightarrow> 'd env \<Rightarrow> ('d, 'b) api_cache \<Rightarrow>
     (error + 'd option) \<times> ('d, 'b) api_cache" where
  "fetch endpoint opts env st =
     (let cacheKey = getCacheKey endpoint (filters opts);
          (valid, st1) = (if forceRefresh opts then (False, st)
                          else isValidCache cacheKey (now_check env) st)
      in if valid then (Inr (getCached cacheKey st1), st1)
         else fetch_try endpoint cacheKey opts env st1)"


section \<open>dataManager.js: the orchestrator\<close>

definition BASE_URL :: string where
  "BASE_URL = ''https://sheetdb.io/api/v1/254cxsbebm3n7''"

definition ENDPOINTS_MEMBERS :: string where
  "ENDPOINTS_MEMBERS = BASE_URL @ ''?sheet=Member List''"

definition ENDPOINTS_TRANSACTIONS :: string where
  "ENDPOINTS_TRANSACTIONS = BASE_URL @ ''?sheet=Transactions''"

definition ENDPOINTS_LOANS :: string where
  "ENDPOINTS_LOANS = BASE_URL @ ''?sheet=Loan Details''"

definition CACHE_TTL_MEMBERS :: int where
  "CACHE_TTL_MEMBERS = 30 * 60 * 1000"

definition CACHE_TTL_TRANSACTIONS :: int where
  "CACHE_TTL_TRANSACTIONS = 15 * 60 * 1000"

definition CACHE_TTL_LOANS :: int where
  "CACHE_TTL_LOANS = 15 * 60 * 1000"

text \<open>
  The body of a write request before \<open>JSON.stringify\<close>: \<open>{data: [row]}\<close> or
  \<open>{data: row}\<close>. The cached payloads are arrays of rows.
\<close>

datatype wbody = DataList "row list" | DataObj row

type_synonym store = "(row list, wbody) api_cache"

definition json_headers :: "(string \<times> string) list" where
  "json_headers = [(''Content-Type'', ''application/json'')]"

definition getMembers :: "bool \<Rightarrow> row list env \<Rightarrow> store \<Rightarrow> (error + row list option) \<times> store" where
  "getMembers force env st =
     fetch ENDPOINTS_MEMBERS
       \<lparr>ttl = CACHE_TTL_MEMBERS, forceRefresh = force, filters = [],
        method_opt = ''GET'', body_opt = None\<rparr> env st"

definition getTransactions :: "bool \<Rightarrow> row list env \<Rightarrow> store \<Rightarrow> (error + row list option) \<times> store" where
  "getTransactions force env st =
     fetch ENDPOINTS_TRANSACTIONS
       \<lparr>ttl = CACHE_TTL_TRANSACTIONS, forceRefresh = force, filters = [],
        method_opt = ''GET'', body_opt = None\<rparr> env st"

definition getLoans :: "bool \<Rightarrow> row list env \<Rightarrow> store \<Rightarrow> (error + row list option) \<times> store" where
  "getLoans force env st =
     fetch ENDPOINTS_LOANS
       \<lparr>ttl = CACHE_TTL_LOANS, forceRefresh = force, filters = [],
        method_opt = ''GET'', body_opt = None\<rparr> env st"

text \<open>
  The test of \<open>searchMembers\<close> on one row, \<open>m.Name && m.Name.toLowerCase().includes(q)\<close>:
  an absent or falsy \<open>Name\<close> drops the row; a truthy \<open>Name\<close> that is not a string has no
  \<open>toLowerCase\<close>, and the call throws.
\<close>

definition name_matches :: "string \<Rightarrow> row \<Rightarrow> error + bool" where
  "name_matches q m =
     (case map_of m ''Name'' of
        None \<Rightarrow> Inr False
      | Some v \<Rightarrow>
          if \<not> truthy v then Inr False
          else (case v of
                  JStr s \<Rightarrow> Inr (includes_str (toLowerCase s) q)
                | _ \<Rightarrow> Inl (Error ''TypeError: m.Name.toLowerCase is not a function'')))"

text \<open>\<open>data.filter(test)\<close> for a test that may throw: the first exception ends the scan.\<close>

fun filter_rows :: "(row \<Rightarrow> error + bool) \<Rightarrow> row list \<Rightarrow> error + row list" where
  "filter_rows t [] = Inr []"
| "filter_rows t (m # ms) =
     (case t m of
        Inl err \<Rightarrow> Inl err
      | Inr keep \<Rightarrow>
          (case filter_rows t ms of
             Inl err \<Rightarrow> Inl err
           | Inr rest \<Rightarrow> Inr (if keep then m # rest else rest)))"

definition searchMembers :: "string \<Rightarrow> store \<Rightarrow> error + row list" where
  "searchMembers query st =
     (case getCached (getCacheKey ENDPOINTS_MEMBERS []) st of
        None \<Rightarrow> Inr []
      | Some d \<Rightarrow>
          if query = [] then Inr d
          else (let q = toLowerCase query in filter_rows (name_matches q) d))"

definition searchTransactions :: "string \<Rightarrow> store \<Rightarrow> row list" where
  "searchTransactions memberName st =
     (case getCached (getCacheKey ENDPOINTS_TRANSACTIONS []) st of
        None \<Rightarrow> []
      | Some d \<Rightarrow>
          if memberName = [] then d
          else filter (\<lambda>t. map_of t ''Name'' = Some (JStr memberName)) d)"

definition getLoanByMember :: "string \<Rightarrow> store \<Rightarrow> row option" where
  "getLoanByMember memberName st =
     (case getCached (getCacheKey ENDPOINTS_LOANS []) st of
        None \<Rightarrow> None
      | Some d \<Rightarrow> find (\<lambda>l. map_of l ''Name'' = Some (JStr memberName)) d)"

definition getLoansByMember :: "string \<Rightarrow> store \<Rightarrow> row list" where
  "getLoansByMember memberName st =
     (case getCached (getCacheKey ENDPOINTS_LOANS []) st of
        None \<Rightarrow> []
      | Some d \<Rightarrow> filter (\<lambda>l. map_of l ''Name'' = Some (JStr memberName)) d)"

text \<open>
  Every write method has the same shape: \<open>await fetch(url, init)\<close>; on a response that is
  not \<open>ok\<close>, \<open>throw new Error(failure)\<close>; then \<open>apiCache.invalidate\<close> of the method's
  endpoints in turn; then \<open>return response.json()\<close>. A rejected transport promise or a
  rejected \<open>json()\<close> leaves the method as it is.
\<close>

definition remote_write ::
  "wbody request \<Rightarrow> string \<Rightarrow> string list \<Rightarrow> 'r outcome \<Rightarrow> store \<Rightarrow> (error + 'r) \<times> store" where
  "remote_write rq failure endpoints out st =
     (let st1 = st\<lparr>calls := calls st @ [rq]\<rparr>
      in case out of
           Rejected reason \<Rightarrow> (Inl (Rejection reason), st1)
         | Response ok statusText json \<Rightarrow>
             if \<not> ok then (Inl (Error failure), st1)
             else (let st2 = fold (\<lambda>endpoint. invalidate endpoint []) endpoints st1
                   in case json of
                        Inl reason \<Rightarrow> (Inl (Rejection reason), st2)
                      | Inr b \<Rightarrow> (Inr b, st2)))"

definition addMember :: "row \<Rightarrow> 'r outcome \<Rightarrow> store \<Rightarrow> (error + 'r) \<times> store" where
  "addMember memberData out st =
     remote_write
       \<lparr>url = ENDPOINTS_MEMBERS, http_method = ''POST'', headers = json_headers,
        body = Some (DataList [memberData])\<rparr>
       ''Failed to add member'' [ENDPOINTS_MEMBERS] out st"

definition addTransaction :: "row \<Rightarrow> 'r outcome \<Rightarrow> store \<Rightarrow> (error + 'r) \<times> store" where
  "addTransaction transactionData out st =
     remote_write
       \<lparr>url = ENDPOINTS_TRANSACTIONS @ ''&mode=append'', http_method = ''POST'', headers = json_headers,
        body = Some (DataList [transactionData])\<rparr>
       ''Failed to add transaction'' [ENDPOINTS_TRANSACTIONS] out st"

definition updateLoan :: "jsval \<Rightarrow> row \<Rightarrow> 'r outcome \<Rightarrow> store \<Rightarrow> (error + 'r) \<times> store" where
  "updateLoan loanId loanData out st =
     remote_write
       \<lparr>url = BASE_URL @ ''/Id/'' @ to_string loanId @ ''?sheet=Loan Details'', http_method = ''PUT'',
        headers = json_headers, body = Some (DataObj loanData)\<rparr>
       ''Failed to update loan'' [ENDPOINTS_LOANS] out st"

definition addLoan :: "row \<Rightarrow> 'r outcome \<Rightarrow> store \<Rightarrow> (error + 'r) \<times> store" where
  "addLoan loanData out st =
     remote_write
       \<lparr>url = ENDPOINTS_LOANS, http_method = ''POST'', headers = json_headers,
        body = Some (DataList [loanData])\<rparr>
       ''Failed to add loan'' [ENDPOINTS_LOANS] out st"

definition deleteMember :: "string \<Rightarrow> 'r outcome \<Rightarrow> store \<Rightarrow> (error + 'r) \<times> store" where
  "deleteMember memberName out st =
     remote_write
       \<lparr>url = BASE_URL @ ''/Name/'' @ memberName @ ''?sheet=Member List'', http_method = ''DELETE'',
        headers = [], body = None\<rparr>
       ''Failed to delete member'' [ENDPOINTS_MEMBERS, ENDPOINTS_TRANSACTIONS] out st"

definition deleteTransactions :: "string \<Rightarrow> 'r outcome \<Rightarrow> store \<Rightarrow> (error + 'r) \<times> store" where
  "deleteTransactions memberName out st =
     remote_write
       \<lparr>url = BASE_URL @ ''/Name/'' @ memberName @ ''?sheet=Transactions'', http_method = ''DELETE'',
        headers = [], body = None\<rparr>
       ''Failed to delete transactions'' [ENDPOINTS_TRANSACTIONS] out st"

definition deleteTransactionById :: "jsval \<Rightarrow> 'r outcome \<Rightarrow> store \<Rightarrow> (error + 'r) \<times> store" where
  "deleteTransactionById i out st =
     remote_write
       \<lparr>url = BASE_URL @ ''?sheet=Transactions&Id='' @ to_string i, http_method = ''DELETE'',
        headers = [], body = None\<rparr>
       ''Failed to delete transaction'' [] out st"

definition addDeletedMember :: "row \<Rightarrow> 'r outcome \<Rightarrow> store \<Rightarrow> (error + 'r) \<times> store" where
  "addDeletedMember d out st =
     remote_write
       \<lparr>url = BASE_URL @ ''?sheet=Deleted Members'', http_method = ''POST'', headers = json_headers,
        body = Some (DataList [d])\<rparr>
       ''Failed to archive deleted member'' [] out st"

definition not_found :: "string \<Rightarrow> error" where
  \<open>not_found memberName = Error (''Member "'' @ memberName @ ''" not found or missing Id'')\<close>

text \<open>
  \<open>updateMember\<close> reads the members with a forced refresh, takes the first row whose
  \<open>Name\<close> is the given string, and refuses when there is none or its \<open>Id\<close> is falsy;
  otherwise it sends the merged row and goes on as the other writes do. (\<open>members.find\<close>
  on \<open>null\<close> would be a TypeError.)
\<close>

definition updateMember ::
  "string \<Rightarrow> row \<Rightarrow> row list env \<Rightarrow> 'r outcome \<Rightarrow> store \<Rightarrow> (error + 'r) \<times> store" where
  "updateMember memberName updates env out st =
     (case getMembers True env st of
        (Inl err, st1) \<Rightarrow> (Inl err, st1)
      | (Inr None, st1) \<Rightarrow> (Inl (Error ''TypeError: Cannot read properties of null''), st1)
      | (Inr (Some members), st1) \<Rightarrow>
          (case find (\<lambda>m. map_of m ''Name'' = Some (JStr memberName)) members of
             None \<Rightarrow> (Inl (not_found memberName), st1)
           | Some member \<Rightarrow>
               (case map_of member ''Id'' of
                  None \<Rightarrow> (Inl (not_found memberName), st1)
                | Some i \<Rightarrow>
                    if \<not> truthy i then (Inl (not_found memberName), st1)
                    else remote_write
                           \<lparr>url = BASE_URL @ ''/Id/'' @ to_string i @ ''?sheet=Member List'',
                            http_method = ''PUT'', headers = json_headers,
                            body = Some (DataObj (spread member updates))\<rparr>
                           ''Failed to update member'' [ENDPOINTS_MEMBERS] out st1)))"

section \<open>Properties of the cache key\<close>

lemma filter_same_key:
  "distinct (map f xs) \<Longrightarrow> k \<in> set xs \<Longrightarrow> filter (\<lambda>x. f k = f x) xs = [k]"
proof (induction xs)
  case Nil
  then show ?case by simp
next
  case (Cons a xs)
  show ?case
  proof (cases "a = k")
    case True
    have "filter (\<lambda>x. f k = f x) xs = []"
      using Cons.prems(1) True by (auto simp: filter_empty_conv)
    with True show ?thesis by simp
  next
    case False
    with Cons.prems have kin: "k \<in> set xs" by simp
    have "f a \<noteq> f k" using Cons.prems(1) kin by auto
    then show ?thesis using Cons.IH kin Cons.prems(1) by auto
  qed
qed

lemma sort_key_permutation:
  fixes f :: "'a \<Rightarrow> 'k::linorder"
  assumes "mset xs = mset ys" and "distinct (map f xs)"
  shows "sort_key f xs = sort_key f ys"
proof (rule properties_for_sort_key)
  show "mset (sort_key f ys) = mset xs" using assms(1) by simp
  show "sorted (map f (sort_key f ys))" by simp
  fix k assume "k \<in> set (sort_key f ys)"
  then have kys: "k \<in> set ys" by simp
  then have kxs: "k \<in> set xs" using assms(1) mset_eq_setD by blast
  have "mset (map f ys) = mset (map f xs)" using assms(1) by simp
  then have dys: "distinct (map f ys)" using assms(2) mset_eq_imp_distinct_iff by blast
  have "mset (map f (sort_key f ys)) = mset (map f ys)" by simp
  then have "distinct (map f (sort_key f ys))" using dys mset_eq_imp_distinct_iff by blast
  then have "filter (\<lambda>x. f k = f x) (sort_key f ys) = [k]"
    using kys by (intro filter_same_key) simp_all
  moreover have "filter (\<lambda>x. f k = f x) xs = [k]"
    using assms(2) kxs by (rule filter_same_key)
  ultimately show "filter (\<lambda>x. f k = f x) (sort_key f ys) = filter (\<lambda>x. f k = f x) xs" by simp
qed

text \<open>
  Filter objects with the same entries give the same key whenever no two entries have the
  same string form \<open>k + "," + v\<close>, the string the default sort compares.
\<close>

lemma getCacheKey_permutation:
  "mset f1 = mset f2 \<Longrightarrow> distinct (map entry_string f1) \<Longrightarrow> getCacheKey r f1 = getCacheKey r f2"
  by (simp add: getCacheKey_def sort_key_permutation [of f1 f2 entry_string])

text \<open>
  Claim C2: \<open>getCacheKey\<close> gives the same key for two filter objects that hold the same
  key/value pairs in a different insertion order. The code sorts the entries with the
  default comparator, which compares the strings \<open>k + "," + v\<close>; the stable sort
  leaves entries with equal strings in insertion order. The filter objects
  \<open>{"a": "b,c", "a,b": "c"}\<close> and \<open>{"a,b": "c", "a": "b,c"}\<close> hold the same pairs
  and get different keys.
\<close>

theorem getCacheKey_order_dependent:
  "getCacheKey ''r'' [(''a'', JStr ''b,c''), (''a,b'', JStr ''c'')] = ''api_cache_r_a=b,c&a,b=c''
   \<and> getCacheKey ''r'' [(''a,b'', JStr ''c''), (''a'', JStr ''b,c'')] = ''api_cache_r_a,b=c&a=b,c''
   \<and> getCacheKey ''r'' [(''a'', JStr ''b,c''), (''a,b'', JStr ''c'')]
       \<noteq> getCacheKey ''r'' [(''a,b'', JStr ''c''), (''a'', JStr ''b,c'')]"
  by (simp add: getCacheKey_def entry_string_def CACHE_KEY_PREFIX_def)

section \<open>Properties of the cache\<close>

lemma forEach_call_frame:
  "forEach_call thr cbs d st = (r, st') \<Longrightarrow>
     memory st' = memory st \<and> listeners st' = listeners st \<and> calls st' = calls st"
proof (induction cbs arbitrary: st)
  case Nil
  then show ?case by simp
next
  case (Cons cb cbs)
  show ?case
  proof (cases "thr cb d")
    case True
    with Cons.prems show ?thesis by (auto simp: Let_def)
  next
    case False
    with Cons.prems have "forEach_call thr cbs d (st\<lparr>fired := fired st @ [(cb, d)]\<rparr>) = (r, st')"
      by (simp add: Let_def)
    from Cons.IH [OF this] show ?thesis by simp
  qed
qed

lemma forEach_call_fired:
  "fired (snd (forEach_call thr cbs d st)) =
     fired st @ map (\<lambda>c. (c, d))
       (takeWhile (\<lambda>c. \<not> thr c d) cbs @ take 1 (dropWhile (\<lambda>c. \<not> thr c d) cbs))"
  by (induction cbs arbitrary: st) (simp_all add: Let_def)

lemma notifyListeners_frame:
  "notifyListeners key d thr st = (r, st') \<Longrightarrow>
     memory st' = memory st \<and> listeners st' = listeners st \<and> calls st' = calls st"
  by (auto simp: notifyListeners_def split: option.splits dest: forEach_call_frame)

lemma fetch_catch_state: "snd (fetch_catch key err st) = st"
  by (simp add: fetch_catch_def split: option.splits)

lemma fetch_try_calls:
  "calls (snd (fetch_try endpoint key opts env st)) = calls st @ [transport_request endpoint opts]"
proof (cases "reply env")
  case (Rejected reason)
  then show ?thesis by (simp add: fetch_try_def fetch_catch_state Let_def)
next
  case (Response ok statusText json)
  show ?thesis
  proof (cases "ok \<and> \<not> isl json")
    case False
    with Response show ?thesis
      by (cases json) (auto simp: fetch_try_def fetch_catch_state Let_def)
  next
    case True
    then obtain d where j: "json = Inr d" by (cases json) auto
    obtain thrown st3 where n:
      "notifyListeners key d (throws env)
         (setCached key d (ttl opts) (now_store env)
            (st\<lparr>calls := calls st @ [transport_request endpoint opts]\<rparr>))
       = (thrown, st3)"
      by (cases "notifyListeners key d (throws env)
         (setCached key d (ttl opts) (now_store env)
            (st\<lparr>calls := calls st @ [transport_request endpoint opts]\<rparr>))")
    from notifyListeners_frame [OF n]
    have "calls st3 = calls st @ [transport_request endpoint opts]"
      by (simp add: setCached_def)
    with Response True j n show ?thesis
      by (cases thrown) (simp_all add: fetch_try_def fetch_catch_state Let_def)
  qed
qed

lemma fetch_try_success:
  assumes r: "reply env = Response True statusText (Inr d)"
  shows "fst (fetch_try endpoint key opts env st) = Inr (Some d)
    \<and> memory (snd (fetch_try endpoint key opts env st))
        = (memory st)(key \<mapsto> \<lparr>data = d, expiresAt = now_store env + ttl opts\<rparr>)
    \<and> listeners (snd (fetch_try endpoint key opts env st)) = listeners st
    \<and> fired (snd (fetch_try endpoint key opts env st))
        = fired (snd (notifyListeners key d (throws env) st))"
proof -
  define st2 where
    "st2 = setCached key d (ttl opts) (now_store env)
             (st\<lparr>calls := calls st @ [transport_request endpoint opts]\<rparr>)"
  obtain thrown st3 where n: "notifyListeners key d (throws env) st2 = (thrown, st3)"
    by (cases "notifyListeners key d (throws env) st2")
  have m2: "memory st2 = (memory st)(key \<mapsto> \<lparr>data = d, expiresAt = now_store env + ttl opts\<rparr>)"
    and l2: "listeners st2 = listeners st" and f2: "fired st2 = fired st"
    by (simp_all add: st2_def setCached_def)
  from notifyListeners_frame [OF n] m2 l2
  have m3: "memory st3 = (memory st)(key \<mapsto> \<lparr>data = d, expiresAt = now_store env + ttl opts\<rparr>)"
    and l3: "listeners st3 = listeners st" by simp_all
  have f3: "fired st3 = fired (snd (notifyListeners key d (throws env) st))"
  proof -
    have "fired (snd (notifyListeners key d (throws env) st2))
            = fired (snd (notifyListeners key d (throws env) st))"
      by (simp add: notifyListeners_def l2 f2 forEach_call_fired split: option.splits)
    with n show ?thesis by simp
  qed
  have t: "fetch_try endpoint key opts env st
             = (case thrown of None \<Rightarrow> (Inr (Some d), st3) | Some err \<Rightarrow> fetch_catch key err st3)"
    using r n by (simp add: fetch_try_def Let_def st2_def)
  show ?thesis
  proof (cases thrown)
    case None
    with t m3 l3 f3 show ?thesis by simp
  next
    case (Some err)
    have "fetch_catch key err st3 = (Inr (Some d), st3)"
      by (simp add: fetch_catch_def m3)
    with Some t m3 l3 f3 show ?thesis by simp
  qed
qed

lemma fetch_try_failure:
  assumes "transport_failed (reply env)"
  shows "fetch_try endpoint key opts env st
           = (case memory st key of
                Some e \<Rightarrow> Inr (Some (data e))
              | None \<Rightarrow> Inl (case reply env of
                              Rejected reason \<Rightarrow> Rejection reason
                            | Response ok statusText json \<Rightarrow>
                                if \<not> ok then Error (''API Error: '' @ statusText)
                                else Rejection (projl json)),
              st\<lparr>calls := calls st @ [transport_request endpoint opts]\<rparr>)"
proof (cases "reply env")
  case (Rejected reason)
  then show ?thesis
    by (simp add: fetch_try_def fetch_catch_def Let_def split: option.splits)
next
  case (Response ok statusText json)
  show ?thesis
  proof (cases ok)
    case False
    with Response show ?thesis
      by (simp add: fetch_try_def fetch_catch_def Let_def split: option.splits)
  next
    case True
    with assms Response obtain reason where "json = Inl reason" by (cases json) auto
    with True Response show ?thesis
      by (simp add: fetch_try_def fetch_catch_def Let_def split: option.splits)
  qed
qed

lemma isValidCache_frame:
  "isValidCache key now st = (v, st1) \<Longrightarrow>
     listeners st1 = listeners st \<and> fired st1 = fired st \<and> calls st1 = calls st
     \<and> (memory st1)(key \<mapsto> e) = (memory st)(key \<mapsto> e)"
  by (auto simp: isValidCache_def split: option.splits if_splits)

lemma transport_ok_cases:
  assumes "\<not> transport_failed r"
  shows "\<exists>statusText d. r = Response True statusText (Inr d)"
proof (cases r)
  case (Rejected reason)
  with assms show ?thesis by simp
next
  case (Response ok statusText json)
  with assms have "ok" and "\<not> isl json" by (auto split: if_splits)
  then obtain d where "json = Inr d" by (cases json) auto
  with Response \<open>ok\<close> show ?thesis by simp
qed

lemma fetch_try_memory:
  "memory (snd (fetch_try endpoint key opts env st)) = memory st
   \<or> (\<exists>e. memory (snd (fetch_try endpoint key opts env st)) = (memory st)(key \<mapsto> e))"
proof (cases "transport_failed (reply env)")
  case True
  then show ?thesis by (simp add: fetch_try_failure)
next
  case False
  then obtain statusText d where "reply env = Response True statusText (Inr d)"
    using transport_ok_cases by blast
  from fetch_try_success [OF this, of endpoint key opts st] show ?thesis by blast
qed

lemma fetch_try_returns_cached:
  assumes "fst (fetch_try endpoint key opts env st) = Inr r"
  shows "memory (snd (fetch_try endpoint key opts env st)) key \<noteq> None"
proof (cases "transport_failed (reply env)")
  case True
  with assms show ?thesis by (auto simp: fetch_try_failure split: option.splits)
next
  case False
  then obtain statusText d where "reply env = Response True statusText (Inr d)"
    using transport_ok_cases by blast
  from fetch_try_success [OF this, of endpoint key opts st] show ?thesis by simp
qed

lemmas eval_defs =
  fetch_def fetch_try_def fetch_catch_def isValidCache_def setCached_def getCached_def
  notifyListeners_def new_cache_def default_options_def getCacheKey_def CACHE_KEY_PREFIX_def
  transport_request_def onUpdate_def unsubscribe_def invalidate_def Let_def
  getMembers_def ENDPOINTS_MEMBERS_def ENDPOINTS_TRANSACTIONS_def ENDPOINTS_LOANS_def BASE_URL_def
  CACHE_TTL_MEMBERS_def updateMember_def remote_write_def json_headers_def not_found_def

text \<open>
  With a forced refresh the \<open>catch\<close> block finds the old entry and returns its payload.
  Without one, the validity check has deleted an expired entry before the transport is
  called, so a failure of the transport finds nothing to fall back on.
\<close>

lemma fetch_forced_stale_fallback:
  assumes "forceRefresh opts" and "transport_failed (reply env)"
    and "memory st (getCacheKey endpoint (filters opts)) = Some e"
  shows "fetch endpoint opts env st
           = (Inr (Some (data e)), st\<lparr>calls := calls st @ [transport_request endpoint opts]\<rparr>)"
  using assms by (simp add: fetch_def fetch_try_failure Let_def)

lemma fetch_expired_failure_raises:
  assumes "\<not> forceRefresh opts" and "transport_failed (reply env)"
    and "memory st (getCacheKey endpoint (filters opts)) = Some e"
    and "expiresAt e \<noteq> 0" and "now_check env > expiresAt e"
  shows "\<exists>err. fst (fetch endpoint opts env st) = Inl err"
    and "memory (snd (fetch endpoint opts env st)) (getCacheKey endpoint (filters opts)) = None"
  using assms by (simp_all add: fetch_def isValidCache_def fetch_try_failure Let_def)

text \<open>
  Claim C1: when the transport call of \<open>fetch\<close> fails and the key has an entry, expired
  or not, \<open>fetch\<close> returns the stale payload and does not raise, also when it was called
  without \<open>forceRefresh\<close> on an entry that has expired. The run below stores
  \<open>[{a: 1}]\<close> for \<open>X\<close> at time 0 with a TTL of 1000. At time 1500 the transport
  rejects: the \<open>fetch\<close> without \<open>forceRefresh\<close> raises the rejection (its validity
  check has removed the entry), while the same call with \<open>forceRefresh\<close> returns the
  stale payload.
\<close>

theorem stale_fallback_lost_on_expired_entry:
  "memory (snd (fetch ''X'' (default_options\<lparr>ttl := 1000\<rparr>)
                  \<lparr>now_check = 0, reply = Response True ''OK'' (Inr [[(''a'', JNum 1)]]),
                    now_store = 0, throws = (\<lambda>c d. False)\<rparr> (new_cache :: store)))
          ''api_cache_X''
     = Some \<lparr>data = [[(''a'', JNum 1)]], expiresAt = 1000\<rparr>
   \<and> fst (fetch ''X'' (default_options\<lparr>ttl := 1000\<rparr>)
            \<lparr>now_check = 1500, reply = Rejected ''offline'', now_store = 1500,
              throws = (\<lambda>c d. False)\<rparr>
            (snd (fetch ''X'' (default_options\<lparr>ttl := 1000\<rparr>)
                  \<lparr>now_check = 0, reply = Response True ''OK'' (Inr [[(''a'', JNum 1)]]),
                    now_store = 0, throws = (\<lambda>c d. False)\<rparr> (new_cache :: store))))
     = Inl (Rejection ''offline'')
   \<and> fst (fetch ''X'' (default_options\<lparr>ttl := 1000, forceRefresh := True\<rparr>)
            \<lparr>now_check = 1500, reply = Rejected ''offline'', now_store = 1500,
              throws = (\<lambda>c d. False)\<rparr>
            (snd (fetch ''X'' (default_options\<lparr>ttl := 1000\<rparr>)
                  \<lparr>now_check = 0, reply = Response True ''OK'' (Inr [[(''a'', JNum 1)]]),
                    now_store = 0, throws = (\<lambda>c d. False)\<rparr> (new_cache :: store))))
     = Inr (Some [[(''a'', JNum 1)]])"
  by (simp add: fetch_def fetch_try_def fetch_catch_def isValidCache_def setCached_def
      notifyListeners_def new_cache_def default_options_def getCacheKey_def CACHE_KEY_PREFIX_def
      Let_def)

text \<open>
  Claim C3: a \<open>fetch\<close> without \<open>forceRefresh\<close>, while the entry of the key has an
  \<open>expiresAt\<close> that the clock has not passed, returns the payload of the entry and leaves
  the whole state as it is: the store is unchanged and no request goes to the transport.
\<close>

theorem fetch_cache_hit:
  assumes "\<not> forceRefresh opts"
    and "memory st (getCacheKey endpoint (filters opts)) = Some e"
    and "\<not> now_check env > expiresAt e"
  shows "fetch endpoint opts env st = (Inr (Some (data e)), st)"
  using assms by (simp add: fetch_def isValidCache_def getCached_def)

theorem fetch_cache_hit_witness:
  "\<not> forceRefresh (default_options :: (row list, wbody) options)
   \<and> memory (setCached ''api_cache_X'' [[(''a'', JNum 1)]] 1000 0 (new_cache :: store))
        (getCacheKey ''X'' (filters (default_options :: (row list, wbody) options)))
      = Some \<lparr>data = [[(''a'', JNum 1)]], expiresAt = 1000\<rparr>
   \<and> \<not> now_check \<lparr>now_check = 500, reply = Rejected ''offline'', now_store = 500,
                     throws = (\<lambda>c d. False)\<rparr>
        > expiresAt \<lparr>data = [[(''a'', JNum 1)]], expiresAt = 1000\<rparr>
   \<and> fetch ''X'' default_options
        \<lparr>now_check = 500, reply = Rejected ''offline'', now_store = 500, throws = (\<lambda>c d. False)\<rparr>
        (setCached ''api_cache_X'' [[(''a'', JNum 1)]] 1000 0 (new_cache :: store))
      = (Inr (Some [[(''a'', JNum 1)]]),
         setCached ''api_cache_X'' [[(''a'', JNum 1)]] 1000 0 new_cache)"
proof -
  have k: "getCacheKey ''X'' [] = ''api_cache_X''"
    by (simp add: getCacheKey_def CACHE_KEY_PREFIX_def)
  have h1: "\<not> forceRefresh (default_options :: (row list, wbody) options)"
    by (simp add: default_options_def)
  have h2: "memory (setCached ''api_cache_X'' [[(''a'', JNum 1)]] 1000 0 (new_cache :: store))
        (getCacheKey ''X'' (filters (default_options :: (row list, wbody) options)))
      = Some \<lparr>data = [[(''a'', JNum 1)]], expiresAt = 1000\<rparr>"
    by (simp add: k default_options_def setCached_def)
  have h3: "\<not> now_check \<lparr>now_check = 500, reply = Rejected ''offline'', now_store = 500,
                     throws = (\<lambda>c d. False)\<rparr>
        > expiresAt \<lparr>data = [[(''a'', JNum 1)]], expiresAt = 1000\<rparr>"
    by simp
  from fetch_cache_hit [OF h1 h2 h3] h1 h2 h3 show ?thesis by simp
qed

text \<open>
  Claim C8: \<open>invalidate\<close> followed at once by a \<open>fetch\<close> of the same resource and
  filters without \<open>forceRefresh\<close> sends exactly one request to the transport, whatever
  the store held; and \<open>invalidate\<close> of a key that is absent changes nothing and
  raises nothing.
\<close>

theorem invalidate_then_fetch:
  "calls (snd (fetch endpoint (opts\<lparr>forceRefresh := False\<rparr>) env
                 (invalidate endpoint (filters opts) st)))
     = calls st @ [transport_request endpoint (opts\<lparr>forceRefresh := False\<rparr>)]
   \<and> (memory st (getCacheKey endpoint (filters opts)) = None
        \<longrightarrow> invalidate endpoint (filters opts) st = st)"
proof
  show "calls (snd (fetch endpoint (opts\<lparr>forceRefresh := False\<rparr>) env
                 (invalidate endpoint (filters opts) st)))
     = calls st @ [transport_request endpoint (opts\<lparr>forceRefresh := False\<rparr>)]"
    by (simp add: fetch_def isValidCache_def invalidate_def fetch_try_calls Let_def)
next
  show "memory st (getCacheKey endpoint (filters opts)) = None
        \<longrightarrow> invalidate endpoint (filters opts) st = st"
  proof
    assume a: "memory st (getCacheKey endpoint (filters opts)) = None"
    have "(memory st)(getCacheKey endpoint (filters opts) := None) = memory st"
      using a by (simp add: fun_upd_idem)
    then show "invalidate endpoint (filters opts) st = st"
      by (simp add: invalidate_def)
  qed
qed

theorem invalidate_then_fetch_witness:
  "memory (new_cache :: store) (getCacheKey ''X'' (filters (default_options :: (row list, wbody) options))) = None
   \<and> invalidate ''X'' (filters (default_options :: (row list, wbody) options)) (new_cache :: store) = new_cache
   \<and> calls (snd (fetch ''X'' (default_options\<lparr>forceRefresh := False\<rparr>)
                   \<lparr>now_check = 500, reply = Rejected ''offline'', now_store = 500,
                     throws = (\<lambda>c d. False)\<rparr>
                   (invalidate ''X'' (filters (default_options :: (row list, wbody) options)) (new_cache :: store))))
      = [transport_request ''X'' (default_options :: (row list, wbody) options)]"
proof -
  have h: "memory (new_cache :: store) (getCacheKey ''X'' (filters (default_options :: (row list, wbody) options))) = None"
    by (simp add: new_cache_def)
  from invalidate_then_fetch [of "''X''" "default_options :: (row list, wbody) options"
      "\<lparr>now_check = 500, reply = Rejected ''offline'', now_store = 500, throws = (\<lambda>c d. False)\<rparr>"
      "new_cache :: store"] h
  show ?thesis by (simp add: new_cache_def default_options_def invalidate_def)
qed

text \<open>
  Claim C5, as the code has it: the handle returned by \<open>onUpdate key cb\<close> replaces the
  list of the key by the callbacks in it that are not the reference \<open>cb\<close>. Every
  registration of \<open>cb\<close> under the key goes, the registrations of other callbacks stay
  in their order, and other keys are untouched.
\<close>

theorem unsubscribe_removes_by_reference:
  assumes "listeners st2 key = Some cbs"
  shows "fst (onUpdate key cb st) st2
           = Inr (st2\<lparr>listeners := (listeners st2)(key \<mapsto> filter (\<lambda>c. c \<noteq> cb) cbs)\<rparr>)"
  using assms by (simp add: onUpdate_def unsubscribe_def Let_def)

theorem unsubscribe_removes_by_reference_witness:
  "listeners ((new_cache :: store)\<lparr>listeners := [''k'' \<mapsto> [7, 8, 7], ''j'' \<mapsto> [7]]\<rparr>) ''k''
     = Some [7, 8, 7]
   \<and> fst (onUpdate ''k'' 7 (new_cache :: store))
       ((new_cache :: store)\<lparr>listeners := [''k'' \<mapsto> [7, 8, 7], ''j'' \<mapsto> [7]]\<rparr>)
     = Inr ((new_cache :: store)\<lparr>listeners := [''k'' \<mapsto> [8], ''j'' \<mapsto> [7]]\<rparr>)"
proof -
  have h: "listeners ((new_cache :: store)\<lparr>listeners := [''k'' \<mapsto> [7, 8, 7], ''j'' \<mapsto> [7]]\<rparr>) ''k''
     = Some [7, 8, 7]" by simp
  have "[''k'' \<mapsto> [7, 8, 7 :: nat], ''j'' \<mapsto> [7], ''k'' \<mapsto> [8]] = [''k'' \<mapsto> [8], ''j'' \<mapsto> [7]]"
    by (rule ext) simp
  with unsubscribe_removes_by_reference [OF h, of 7 "new_cache :: store"] h
  show ?thesis by (simp add: new_cache_def)
qed

text \<open>
  Claim C5 as it is written fails: after the same callback is registered twice for a key,
  the first handle removes both registrations, and the next successful refresh calls
  nothing.
\<close>

theorem unsubscribe_removes_duplicates_together:
  "fst (onUpdate ''api_cache_X'' 7 (new_cache :: store))
     (snd (onUpdate ''api_cache_X'' 7 (snd (onUpdate ''api_cache_X'' 7 (new_cache :: store)))))
     = Inr ((new_cache :: store)\<lparr>listeners := [''api_cache_X'' \<mapsto> []]\<rparr>)
   \<and> listeners (snd (onUpdate ''api_cache_X'' 7 (snd (onUpdate ''api_cache_X'' 7 (new_cache :: store)))))
       ''api_cache_X'' = Some [7, 7]
   \<and> fired (snd (fetch ''X'' default_options
                    \<lparr>now_check = 0, reply = Response True ''OK'' (Inr [[(''a'', JNum 1)]]),
                      now_store = 0, throws = (\<lambda>c d. False)\<rparr>
                    ((new_cache :: store)\<lparr>listeners := [''api_cache_X'' \<mapsto> []]\<rparr>)))
      = []"
  by (simp add: eval_defs)

text \<open>
  Claim C6, as the code has it: a successful refresh calls the subscribers of the key in
  registration order, up to and including the first one that throws; the subscribers after
  it are not called. The throw leaves the cache intact: the refreshed entry is stored with
  its new payload and expiry, and \<open>fetch\<close> returns the new payload.
\<close>

theorem refresh_notifies_until_first_throw:
  assumes "forceRefresh opts
           \<or> \<not> fst (isValidCache (getCacheKey endpoint (filters opts)) (now_check env) st)"
    and "reply env = Response True statusText (Inr d)"
    and "listeners st (getCacheKey endpoint (filters opts)) = Some cbs"
  shows "fst (fetch endpoint opts env st) = Inr (Some d)
    \<and> memory (snd (fetch endpoint opts env st))
        = (memory st)(getCacheKey endpoint (filters opts)
             \<mapsto> \<lparr>data = d, expiresAt = now_store env + ttl opts\<rparr>)
    \<and> fired (snd (fetch endpoint opts env st))
        = fired st @ map (\<lambda>c. (c, d))
            (takeWhile (\<lambda>c. \<not> throws env c d) cbs
             @ take 1 (dropWhile (\<lambda>c. \<not> throws env c d) cbs))"
proof -
  let ?key = "getCacheKey endpoint (filters opts)"
  obtain v st1 where st1:
    "(if forceRefresh opts then (False, st) else isValidCache ?key (now_check env) st) = (v, st1)"
    by (cases "if forceRefresh opts then (False, st) else isValidCache ?key (now_check env) st")
  have v: "\<not> v" using assms(1) st1 by (auto split: if_splits)
  have fr: "listeners st1 = listeners st \<and> fired st1 = fired st
            \<and> (memory st1)(?key \<mapsto> \<lparr>data = d, expiresAt = now_store env + ttl opts\<rparr>)
                = (memory st)(?key \<mapsto> \<lparr>data = d, expiresAt = now_store env + ttl opts\<rparr>)"
  proof (cases "forceRefresh opts")
    case True
    with st1 show ?thesis by simp
  next
    case False
    with st1 have "isValidCache ?key (now_check env) st = (v, st1)" by simp
    from isValidCache_frame [OF this] show ?thesis by simp
  qed
  have f: "fetch endpoint opts env st = fetch_try endpoint ?key opts env st1"
    using st1 v by (simp add: fetch_def Let_def)
  have n: "fired (snd (notifyListeners ?key d (throws env) st1))
             = fired st @ map (\<lambda>c. (c, d))
                 (takeWhile (\<lambda>c. \<not> throws env c d) cbs
                  @ take 1 (dropWhile (\<lambda>c. \<not> throws env c d) cbs))"
    using fr assms(3) by (simp add: notifyListeners_def forEach_call_fired)
  from fetch_try_success [OF assms(2), of endpoint ?key opts st1] f fr n
  show ?thesis by simp
qed

theorem refresh_notifies_until_first_throw_witness:
  "fst (fetch ''X'' default_options
          \<lparr>now_check = 0, reply = Response True ''OK'' (Inr [[(''a'', JNum 1)]]),
            now_store = 0, throws = (\<lambda>c d. c = 2)\<rparr>
          ((new_cache :: store)\<lparr>listeners := [''api_cache_X'' \<mapsto> [1, 2, 3]]\<rparr>))
     = Inr (Some [[(''a'', JNum 1)]])
   \<and> memory (snd (fetch ''X'' default_options
          \<lparr>now_check = 0, reply = Response True ''OK'' (Inr [[(''a'', JNum 1)]]),
            now_store = 0, throws = (\<lambda>c d. c = 2)\<rparr>
          ((new_cache :: store)\<lparr>listeners := [''api_cache_X'' \<mapsto> [1, 2, 3]]\<rparr>))) ''api_cache_X''
     = Some \<lparr>data = [[(''a'', JNum 1)]], expiresAt = 3600000\<rparr>
   \<and> fired (snd (fetch ''X'' default_options
          \<lparr>now_check = 0, reply = Response True ''OK'' (Inr [[(''a'', JNum 1)]]),
            now_store = 0, throws = (\<lambda>c d. c = 2)\<rparr>
          ((new_cache :: store)\<lparr>listeners := [''api_cache_X'' \<mapsto> [1, 2, 3]]\<rparr>)))
     = [(1, [[(''a'', JNum 1)]]), (2, [[(''a'', JNum 1)]])]"
proof -
  let ?env = "\<lparr>now_check = 0, reply = Response True ''OK'' (Inr [[(''a'', JNum 1)]]),
            now_store = 0, throws = (\<lambda>c d. c = 2)\<rparr> :: row list env"
  let ?st = "(new_cache :: store)\<lparr>listeners := [''api_cache_X'' \<mapsto> [1, 2, 3]]\<rparr>"
  let ?opts = "default_options :: (row list, wbody) options"
  have k: "getCacheKey ''X'' (filters ?opts) = ''api_cache_X''"
    by (simp add: getCacheKey_def CACHE_KEY_PREFIX_def default_options_def)
  have h1: "forceRefresh ?opts
           \<or> \<not> fst (isValidCache (getCacheKey ''X'' (filters ?opts)) (now_check ?env) ?st)"
    by (simp add: k isValidCache_def new_cache_def)
  have h2: "reply ?env = Response True ''OK'' (Inr [[(''a'', JNum 1)]])" by simp
  have h3: "listeners ?st (getCacheKey ''X'' (filters ?opts)) = Some [1, 2, 3]"
    by (simp add: k)
  from refresh_notifies_until_first_throw [OF h1 h2 h3]
  show ?thesis
    by (simp add: getCacheKey_def CACHE_KEY_PREFIX_def new_cache_def default_options_def DEFAULT_TTL_def)
qed

text \<open>
  Claim C6 as it is written fails: with subscribers 1 and 2 registered in this order and
  subscriber 1 throwing, a successful refresh calls subscriber 1 only.
\<close>

theorem throwing_callback_stops_notification:
  "listeners (snd (onUpdate ''api_cache_X'' 2 (snd (onUpdate ''api_cache_X'' 1 (new_cache :: store)))))
       ''api_cache_X'' = Some [1, 2]
   \<and> fired (snd (fetch ''X'' default_options
                    \<lparr>now_check = 0, reply = Response True ''OK'' (Inr [[(''a'', JNum 1)]]),
                      now_store = 0, throws = (\<lambda>c d. c = 1)\<rparr>
                    (snd (onUpdate ''api_cache_X'' 2
                       (snd (onUpdate ''api_cache_X'' 1 (new_cache :: store)))))))
      = [(1, [[(''a'', JNum 1)]])]"
  by (simp add: eval_defs)

section \<open>Properties of the orchestrator\<close>

lemma getMembers_forced:
  "getMembers True env st
     = fetch_try ENDPOINTS_MEMBERS (getCacheKey ENDPOINTS_MEMBERS [])
         \<lparr>ttl = CACHE_TTL_MEMBERS, forceRefresh = True, filters = [],
          method_opt = ''GET'', body_opt = None\<rparr> env st"
  by (simp add: getMembers_def fetch_def Let_def)

lemma remote_write_not_ok:
  "remote_write rq failure endpoints (Response False statusText json) st
     = (Inl (Error failure), st\<lparr>calls := calls st @ [rq]\<rparr>)"
  by (simp add: remote_write_def Let_def)

lemma remote_write_no_invalidation:
  "memory (snd (remote_write rq failure [] out st)) = memory st
   \<and> listeners (snd (remote_write rq failure [] out st)) = listeners st"
  by (cases out) (auto simp: remote_write_def Let_def split: sum.splits)

lemma remote_write_ok:
  "remote_write rq failure endpoints (Response True statusText (Inr b)) st
     = (Inr b, fold (\<lambda>endpoint. invalidate endpoint []) endpoints (st\<lparr>calls := calls st @ [rq]\<rparr>))"
  by (simp add: remote_write_def Let_def)

lemma getMembers_forced_memory:
  "memory (snd (getMembers True env st)) = memory st
   \<or> (\<exists>e. memory (snd (getMembers True env st))
            = (memory st)(getCacheKey ENDPOINTS_MEMBERS [] \<mapsto> e))"
  unfolding getMembers_forced by (rule fetch_try_memory)

lemma getMembers_forced_calls:
  "calls (snd (getMembers True env st))
     = calls st @ [\<lparr>url = ENDPOINTS_MEMBERS, http_method = ''GET'',
                    headers = [(''Content-Type'', ''application/json'')], body = None\<rparr>]"
  unfolding getMembers_forced by (simp add: fetch_try_calls transport_request_def)

lemma getMembers_forced_cached:
  "fst (getMembers True env st) = Inr r \<Longrightarrow>
     memory (snd (getMembers True env st)) (getCacheKey ENDPOINTS_MEMBERS []) \<noteq> None"
  unfolding getMembers_forced by (rule fetch_try_returns_cached)

lemma updateMember_not_ok:
  assumes "out = Response False statusText json"
  shows "(\<exists>err. fst (updateMember memberName updates env out st) = Inl err)
    \<and> memory (snd (updateMember memberName updates env out st))
        = memory (snd (getMembers True env st))"
proof (cases "getMembers True env st")
  case (Pair r st1)
  show ?thesis
  proof (cases r)
    case (Inl err)
    with Pair show ?thesis by (simp add: updateMember_def)
  next
    case (Inr got)
    show ?thesis
    proof (cases got)
      case None
      with Pair Inr show ?thesis by (simp add: updateMember_def)
    next
      case (Some members)
      with Pair Inr assms show ?thesis
        by (simp add: updateMember_def remote_write_not_ok split: option.splits)
    qed
  qed
qed

lemma updateMember_reaches_write:
  assumes "fst (getMembers True env st) = Inr (Some members)"
    and "find (\<lambda>m. map_of m ''Name'' = Some (JStr memberName)) members = Some member"
    and "map_of member ''Id'' = Some i" and "truthy i"
  shows "updateMember memberName updates env out st
           = remote_write
               \<lparr>url = BASE_URL @ ''/Id/'' @ to_string i @ ''?sheet=Member List'',
                http_method = ''PUT'', headers = json_headers,
                body = Some (DataObj (spread member updates))\<rparr>
               ''Failed to update member'' [ENDPOINTS_MEMBERS] out (snd (getMembers True env st))"
  using assms by (cases "getMembers True env st") (simp add: updateMember_def)

lemma getMembers_forced_ok:
  "getMembers True \<lparr>now_check = t, reply = Response True s (Inr d), now_store = t', throws = (\<lambda>c x. False)\<rparr>
     (new_cache :: store)
   = (Inr (Some d),
      \<lparr>memory = [getCacheKey ENDPOINTS_MEMBERS [] \<mapsto> \<lparr>data = d, expiresAt = t' + CACHE_TTL_MEMBERS\<rparr>],
       listeners = Map.empty,
       calls = [\<lparr>url = ENDPOINTS_MEMBERS, http_method = ''GET'',
                 headers = [(''Content-Type'', ''application/json'')], body = None\<rparr>],
       fired = []\<rparr>)"
  by (simp add: getMembers_def fetch_def fetch_try_def setCached_def notifyListeners_def
      new_cache_def transport_request_def Let_def)

text \<open>
  Claim C4, as the code has it: when the write request of an orchestrator write gets a
  response that is not \<open>ok\<close>, the write raises and invalidates nothing. For
  \<open>addMember\<close>, \<open>addTransaction\<close>, \<open>addLoan\<close>, \<open>updateLoan\<close>, \<open>deleteMember\<close> and
  \<open>deleteTransactions\<close> the store is the one before the call. \<open>updateMember\<close> has
  read the members with a forced refresh first, so its store is the one that read left:
  every key stored before is still stored, and only the members entry may differ.
\<close>

theorem failed_write_invalidates_nothing:
  assumes "out = Response False statusText json"
  shows "fst (addMember memberData out st) = Inl (Error ''Failed to add member'')
    \<and> memory (snd (addMember memberData out st)) = memory st
    \<and> fst (addTransaction transactionData out st) = Inl (Error ''Failed to add transaction'')
    \<and> memory (snd (addTransaction transactionData out st)) = memory st
    \<and> fst (addLoan loanData out st) = Inl (Error ''Failed to add loan'')
    \<and> memory (snd (addLoan loanData out st)) = memory st
    \<and> fst (updateLoan loanId loanData out st) = Inl (Error ''Failed to update loan'')
    \<and> memory (snd (updateLoan loanId loanData out st)) = memory st
    \<and> fst (deleteMember memberName out st) = Inl (Error ''Failed to delete member'')
    \<and> memory (snd (deleteMember memberName out st)) = memory st
    \<and> fst (deleteTransactions memberName out st) = Inl (Error ''Failed to delete transactions'')
    \<and> memory (snd (deleteTransactions memberName out st)) = memory st
    \<and> (\<exists>err. fst (updateMember memberName updates env out st) = Inl err)
    \<and> memory (snd (updateMember memberName updates env out st))
        = memory (snd (getMembers True env st))
    \<and> dom (memory st) \<subseteq> dom (memory (snd (updateMember memberName updates env out st)))
    \<and> (\<forall>k. k \<noteq> getCacheKey ENDPOINTS_MEMBERS [] \<longrightarrow>
           memory (snd (updateMember memberName updates env out st)) k = memory st k)
    \<and> (fst (getMembers True env st) = Inr (Some members) \<longrightarrow>
        find (\<lambda>m. map_of m ''Name'' = Some (JStr memberName)) members = Some member \<longrightarrow>
        map_of member ''Id'' = Some i \<longrightarrow> truthy i \<longrightarrow>
        fst (updateMember memberName updates env out st) = Inl (Error ''Failed to update member''))"
proof -
  have six:
    "fst (addMember memberData out st) = Inl (Error ''Failed to add member'')"
    "memory (snd (addMember memberData out st)) = memory st"
    "fst (addTransaction transactionData out st) = Inl (Error ''Failed to add transaction'')"
    "memory (snd (addTransaction transactionData out st)) = memory st"
    "fst (addLoan loanData out st) = Inl (Error ''Failed to add loan'')"
    "memory (snd (addLoan loanData out st)) = memory st"
    "fst (updateLoan loanId loanData out st) = Inl (Error ''Failed to update loan'')"
    "memory (snd (updateLoan loanId loanData out st)) = memory st"
    "fst (deleteMember memberName out st) = Inl (Error ''Failed to delete member'')"
    "memory (snd (deleteMember memberName out st)) = memory st"
    "fst (deleteTransactions memberName out st) = Inl (Error ''Failed to delete transactions'')"
    "memory (snd (deleteTransactions memberName out st)) = memory st"
    by (simp_all add: assms remote_write_not_ok addMember_def addTransaction_def addLoan_def
        updateLoan_def deleteMember_def deleteTransactions_def)
  note u = updateMember_not_ok [OF assms, of memberName updates env st]
  from u have u1: "\<exists>err. fst (updateMember memberName updates env out st) = Inl err"
    and u2: "memory (snd (updateMember memberName updates env out st))
        = memory (snd (getMembers True env st))"
    by simp_all
  have u3: "dom (memory st) \<subseteq> dom (memory (snd (updateMember memberName updates env out st)))"
    using getMembers_forced_memory [of env st] u2 by auto
  have u4: "\<forall>k. k \<noteq> getCacheKey ENDPOINTS_MEMBERS [] \<longrightarrow>
           memory (snd (updateMember memberName updates env out st)) k = memory st k"
    using getMembers_forced_memory [of env st] u2 by auto
  have u5: "fst (getMembers True env st) = Inr (Some members) \<longrightarrow>
        find (\<lambda>m. map_of m ''Name'' = Some (JStr memberName)) members = Some member \<longrightarrow>
        map_of member ''Id'' = Some i \<longrightarrow> truthy i \<longrightarrow>
        fst (updateMember memberName updates env out st) = Inl (Error ''Failed to update member'')"
    by (simp add: updateMember_reaches_write assms remote_write_not_ok)
  from six u1 u2 u3 u4 u5 show ?thesis by blast
qed

theorem failed_write_invalidates_nothing_witness:
  "fst (addLoan [(''Name'', JStr ''Bob''), (''LoanAmount'', JStr ''10000'')]
          (Response False ''Bad Request'' (Inl ''no body'') :: row list outcome)
          (setCached (getCacheKey ENDPOINTS_LOANS []) [] 900000 0 (new_cache :: store)))
     = Inl (Error ''Failed to add loan'')
   \<and> memory (snd (addLoan [(''Name'', JStr ''Bob''), (''LoanAmount'', JStr ''10000'')]
          (Response False ''Bad Request'' (Inl ''no body'') :: row list outcome)
          (setCached (getCacheKey ENDPOINTS_LOANS []) [] 900000 0 (new_cache :: store))))
     = memory (setCached (getCacheKey ENDPOINTS_LOANS []) [] 900000 0 (new_cache :: store))
   \<and> fst (updateMember ''Alice'' [(''Status'', JStr ''Inactive'')]
          \<lparr>now_check = 0,
            reply = Response True ''OK'' (Inr [[(''Name'', JStr ''Alice''), (''Id'', JStr ''7'')]]),
            now_store = 0, throws = (\<lambda>c d. False)\<rparr>
          (Response False ''Bad Request'' (Inl ''no body'') :: row list outcome)
          (new_cache :: store))
     = Inl (Error ''Failed to update member'')
   \<and> dom (memory (new_cache :: store))
       \<subseteq> dom (memory (snd (updateMember ''Alice'' [(''Status'', JStr ''Inactive'')]
          \<lparr>now_check = 0,
            reply = Response True ''OK'' (Inr [[(''Name'', JStr ''Alice''), (''Id'', JStr ''7'')]]),
            now_store = 0, throws = (\<lambda>c d. False)\<rparr>
          (Response False ''Bad Request'' (Inl ''no body'') :: row list outcome)
          (new_cache :: store))))"
proof -
  let ?out = "Response False ''Bad Request'' (Inl ''no body'') :: row list outcome"
  let ?env = "\<lparr>now_check = 0,
            reply = Response True ''OK'' (Inr [[(''Name'', JStr ''Alice''), (''Id'', JStr ''7'')]]),
            now_store = 0, throws = (\<lambda>c d. False)\<rparr> :: row list env"
  have g: "fst (getMembers True ?env (new_cache :: store))
             = Inr (Some [[(''Name'', JStr ''Alice''), (''Id'', JStr ''7'')]])"
    by (simp add: getMembers_forced_ok)
  have f: "find (\<lambda>m. map_of m ''Name'' = Some (JStr ''Alice''))
             [[(''Name'', JStr ''Alice''), (''Id'', JStr ''7'')]]
           = Some [(''Name'', JStr ''Alice''), (''Id'', JStr ''7'')]"
    by simp
  have i: "map_of [(''Name'', JStr ''Alice''), (''Id'', JStr ''7'')] ''Id'' = Some (JStr ''7'')"
    by simp
  have t: "truthy (JStr ''7'')" by simp
  note a = failed_write_invalidates_nothing [OF refl,
      where statusText = "''Bad Request''" and json = "Inl ''no body''"
        and loanData = "[(''Name'', JStr ''Bob''), (''LoanAmount'', JStr ''10000'')]"
        and st = "setCached (getCacheKey ENDPOINTS_LOANS []) [] 900000 0 (new_cache :: store)"]
  note b = failed_write_invalidates_nothing [OF refl,
      where statusText = "''Bad Request''" and json = "Inl ''no body''"
        and memberName = "''Alice''" and updates = "[(''Status'', JStr ''Inactive'')]"
        and env = ?env and st = "new_cache :: store"
        and members = "[[(''Name'', JStr ''Alice''), (''Id'', JStr ''7'')]]"
        and member = "[(''Name'', JStr ''Alice''), (''Id'', JStr ''7'')]"
        and i = "JStr ''7''"]
  from a have a1: "fst (addLoan [(''Name'', JStr ''Bob''), (''LoanAmount'', JStr ''10000'')] ?out
          (setCached (getCacheKey ENDPOINTS_LOANS []) [] 900000 0 (new_cache :: store)))
     = Inl (Error ''Failed to add loan'')"
    and a2: "memory (snd (addLoan [(''Name'', JStr ''Bob''), (''LoanAmount'', JStr ''10000'')] ?out
          (setCached (getCacheKey ENDPOINTS_LOANS []) [] 900000 0 (new_cache :: store))))
     = memory (setCached (getCacheKey ENDPOINTS_LOANS []) [] 900000 0 (new_cache :: store))"
    by blast+
  from b g f i t have b1: "fst (updateMember ''Alice'' [(''Status'', JStr ''Inactive'')] ?env ?out
          (new_cache :: store)) = Inl (Error ''Failed to update member'')"
    by blast
  from b have b2: "dom (memory (new_cache :: store))
       \<subseteq> dom (memory (snd (updateMember ''Alice'' [(''Status'', JStr ''Inactive'')] ?env ?out
          (new_cache :: store))))"
    by blast
  from a1 a2 b1 b2 show ?thesis by blast
qed

text \<open>
  Claim C4 as it is written fails for \<open>updateMember\<close>: on an empty cache, with the forced
  read answering one member and the write answering a failure status, the call raises and
  the store now holds the members entry it did not hold before.
\<close>

theorem updateMember_failed_write_changes_store:
  "fst (updateMember ''Alice'' [(''Status'', JStr ''Inactive'')]
          \<lparr>now_check = 0,
            reply = Response True ''OK'' (Inr [[(''Name'', JStr ''Alice''), (''Id'', JStr ''7'')]]),
            now_store = 0, throws = (\<lambda>c d. False)\<rparr>
          (Response False ''Bad Request'' (Inl ''no body'') :: row list outcome)
          (new_cache :: store))
     = Inl (Error ''Failed to update member'')
   \<and> memory (new_cache :: store) (getCacheKey ENDPOINTS_MEMBERS []) = None
   \<and> memory (snd (updateMember ''Alice'' [(''Status'', JStr ''Inactive'')]
          \<lparr>now_check = 0,
            reply = Response True ''OK'' (Inr [[(''Name'', JStr ''Alice''), (''Id'', JStr ''7'')]]),
            now_store = 0, throws = (\<lambda>c d. False)\<rparr>
          (Response False ''Bad Request'' (Inl ''no body'') :: row list outcome)
          (new_cache :: store))) (getCacheKey ENDPOINTS_MEMBERS [])
     = Some \<lparr>data = [[(''Name'', JStr ''Alice''), (''Id'', JStr ''7'')]], expiresAt = 1800000\<rparr>"
  by (simp add: updateMember_def getMembers_forced_ok remote_write_not_ok CACHE_TTL_MEMBERS_def)
     (simp add: new_cache_def)

text \<open>
  Claim C7: when the forced read of \<open>updateMember\<close> gives a member list in which no row
  has the given \<open>Name\<close>, or in which the row found has no \<open>Id\<close> (or a falsy one),
  \<open>updateMember\<close> raises the not-found error. The only request sent is the read: no
  write is attempted. The state is the one the read left, in which the members key is
  still cached.
\<close>

theorem updateMember_not_found:
  assumes "fst (getMembers True env st) = Inr (Some members)"
    and "find (\<lambda>m. map_of m ''Name'' = Some (JStr memberName)) members = None
         \<or> (\<exists>member. find (\<lambda>m. map_of m ''Name'' = Some (JStr memberName)) members = Some member
              \<and> (map_of member ''Id'' = None
                  \<or> (\<exists>i. map_of member ''Id'' = Some i \<and> \<not> truthy i)))"
  shows "updateMember memberName updates env out st
           = (Inl (not_found memberName), snd (getMembers True env st))
    \<and> calls (snd (updateMember memberName updates env out st))
        = calls st @ [\<lparr>url = ENDPOINTS_MEMBERS, http_method = ''GET'',
                       headers = [(''Content-Type'', ''application/json'')], body = None\<rparr>]
    \<and> memory (snd (updateMember memberName updates env out st))
         (getCacheKey ENDPOINTS_MEMBERS []) \<noteq> None"
proof -
  have r: "updateMember memberName updates env out st
             = (Inl (not_found memberName), snd (getMembers True env st))"
    using assms by (cases "getMembers True env st") (auto simp: updateMember_def)
  moreover have "memory (snd (getMembers True env st)) (getCacheKey ENDPOINTS_MEMBERS []) \<noteq> None"
    using assms(1) by (rule getMembers_forced_cached)
  ultimately show ?thesis by (simp add: getMembers_forced_calls)
qed

theorem updateMember_not_found_witness:
  "fst (getMembers True
          \<lparr>now_check = 0,
            reply = Response True ''OK'' (Inr [[(''Name'', JStr ''Bob''), (''Id'', JStr ''2'')]]),
            now_store = 0, throws = (\<lambda>c d. False)\<rparr> (new_cache :: store))
     = Inr (Some [[(''Name'', JStr ''Bob''), (''Id'', JStr ''2'')]])
   \<and> find (\<lambda>m. map_of m ''Name'' = Some (JStr ''Alice''))
        [[(''Name'', JStr ''Bob''), (''Id'', JStr ''2'')]] = None
   \<and> fst (updateMember ''Alice'' [(''Status'', JStr ''Inactive'')]
          \<lparr>now_check = 0,
            reply = Response True ''OK'' (Inr [[(''Name'', JStr ''Bob''), (''Id'', JStr ''2'')]]),
            now_store = 0, throws = (\<lambda>c d. False)\<rparr>
          (Response True ''OK'' (Inr []) :: row list outcome) (new_cache :: store))
     = Inl (not_found ''Alice'')
   \<and> calls (snd (updateMember ''Alice'' [(''Status'', JStr ''Inactive'')]
          \<lparr>now_check = 0,
            reply = Response True ''OK'' (Inr [[(''Name'', JStr ''Bob''), (''Id'', JStr ''2'')]]),
            now_store = 0, throws = (\<lambda>c d. False)\<rparr>
          (Response True ''OK'' (Inr []) :: row list outcome) (new_cache :: store)))
     = [\<lparr>url = ENDPOINTS_MEMBERS, http_method = ''GET'',
         headers = [(''Content-Type'', ''application/json'')], body = None\<rparr>]
   \<and> memory (snd (updateMember ''Alice'' [(''Status'', JStr ''Inactive'')]
          \<lparr>now_check = 0,
            reply = Response True ''OK'' (Inr [[(''Name'', JStr ''Bob''), (''Id'', JStr ''2'')]]),
            now_store = 0, throws = (\<lambda>c d. False)\<rparr>
          (Response True ''OK'' (Inr []) :: row list outcome) (new_cache :: store)))
        (getCacheKey ENDPOINTS_MEMBERS []) \<noteq> None"
proof -
  let ?env = "\<lparr>now_check = 0,
            reply = Response True ''OK'' (Inr [[(''Name'', JStr ''Bob''), (''Id'', JStr ''2'')]]),
            now_store = 0, throws = (\<lambda>c d. False)\<rparr> :: row list env"
  have g: "fst (getMembers True ?env (new_cache :: store))
             = Inr (Some [[(''Name'', JStr ''Bob''), (''Id'', JStr ''2'')]])"
    by (simp add: getMembers_forced_ok)
  have f: "find (\<lambda>m. map_of m ''Name'' = Some (JStr ''Alice''))
        [[(''Name'', JStr ''Bob''), (''Id'', JStr ''2'')]] = None"
    by simp
  note u = updateMember_not_found [OF g disjI1 [OF f],
      of "[(''Status'', JStr ''Inactive'')]" "Response True ''OK'' (Inr []) :: row list outcome"]
  from u have "fst (updateMember ''Alice'' [(''Status'', JStr ''Inactive'')] ?env
          (Response True ''OK'' (Inr []) :: row list outcome) (new_cache :: store))
     = Inl (not_found ''Alice'')"
    by simp
  moreover have "calls (new_cache :: store) = []" by (simp add: new_cache_def)
  with conjunct1 [OF conjunct2 [OF u]]
  have "calls (snd (updateMember ''Alice'' [(''Status'', JStr ''Inactive'')] ?env
          (Response True ''OK'' (Inr []) :: row list outcome) (new_cache :: store)))
     = [\<lparr>url = ENDPOINTS_MEMBERS, http_method = ''GET'',
         headers = [(''Content-Type'', ''application/json'')], body = None\<rparr>]"
    by simp
  moreover from u have "memory (snd (updateMember ''Alice'' [(''Status'', JStr ''Inactive'')] ?env
          (Response True ''OK'' (Inr []) :: row list outcome) (new_cache :: store)))
        (getCacheKey ENDPOINTS_MEMBERS []) \<noteq> None"
    by blast
  ultimately show ?thesis using g f by blast
qed

text \<open>
  Claim C9: \<open>deleteTransactionById\<close> never touches the store, whatever the transport
  answers, so a cached read of the transactions gives what it gave before; on a successful
  delete it returns the decoded body. \<open>deleteTransactions\<close>, on the same answer, removes
  the transactions key.
\<close>

theorem deleteTransactionById_keeps_cache:
  "memory (snd (deleteTransactionById i out st)) = memory st
   \<and> searchTransactions memberName (snd (deleteTransactionById i out st))
       = searchTransactions memberName st
   \<and> (out = Response True statusText (Inr b)
        \<longrightarrow> fst (deleteTransactionById i out st) = Inr b
          \<and> memory (snd (deleteTransactions memberName out st))
               (getCacheKey ENDPOINTS_TRANSACTIONS []) = None)"
proof -
  have m: "memory (snd (deleteTransactionById i out st)) = memory st"
    by (simp add: deleteTransactionById_def remote_write_no_invalidation)
  then have s: "searchTransactions memberName (snd (deleteTransactionById i out st))
       = searchTransactions memberName st"
    by (simp add: searchTransactions_def getCached_def)
  have "out = Response True statusText (Inr b)
        \<longrightarrow> fst (deleteTransactionById i out st) = Inr b
          \<and> memory (snd (deleteTransactions memberName out st))
               (getCacheKey ENDPOINTS_TRANSACTIONS []) = None"
    by (simp add: deleteTransactionById_def deleteTransactions_def remote_write_ok invalidate_def)
  with m s show ?thesis by blast
qed

theorem deleteTransactionById_keeps_cache_witness:
  "fst (deleteTransactionById (JStr ''5'') (Response True ''OK'' (Inr [(''deleted'', JNum 1)]))
          (setCached (getCacheKey ENDPOINTS_TRANSACTIONS [])
             [[(''Id'', JStr ''5''), (''Name'', JStr ''Bob'')]] 900000 0 (new_cache :: store)))
     = Inr [(''deleted'', JNum 1)]
   \<and> searchTransactions ''Bob''
        (snd (deleteTransactionById (JStr ''5'') (Response True ''OK'' (Inr [(''deleted'', JNum 1)]))
          (setCached (getCacheKey ENDPOINTS_TRANSACTIONS [])
             [[(''Id'', JStr ''5''), (''Name'', JStr ''Bob'')]] 900000 0 (new_cache :: store))))
     = [[(''Id'', JStr ''5''), (''Name'', JStr ''Bob'')]]
   \<and> memory (snd (deleteTransactions ''Bob'' (Response True ''OK'' (Inr [(''deleted'', JNum 1)]))
          (setCached (getCacheKey ENDPOINTS_TRANSACTIONS [])
             [[(''Id'', JStr ''5''), (''Name'', JStr ''Bob'')]] 900000 0 (new_cache :: store))))
        (getCacheKey ENDPOINTS_TRANSACTIONS []) = None"
proof -
  let ?st = "setCached (getCacheKey ENDPOINTS_TRANSACTIONS [])
             [[(''Id'', JStr ''5''), (''Name'', JStr ''Bob'')]] 900000 0 (new_cache :: store)"
  have s: "searchTransactions ''Bob'' ?st = [[(''Id'', JStr ''5''), (''Name'', JStr ''Bob'')]]"
    by (simp add: searchTransactions_def getCached_def setCached_def)
  from deleteTransactionById_keeps_cache [of "JStr ''5''"
      "Response True ''OK'' (Inr [(''deleted'', JNum 1)])" ?st "''Bob''" "''OK''" "[(''deleted'', JNum 1)]"] s
  show ?thesis by simp
qed

lemma filter_rows_Inr:
  "filter_rows t d = Inr rs \<Longrightarrow> rs = filter (\<lambda>m. t m = Inr True) d"
proof (induction d arbitrary: rs)
  case Nil
  then show ?case by simp
next
  case (Cons m ms)
  from Cons.prems obtain keep rest where k: "t m = Inr keep" and r: "filter_rows t ms = Inr rest"
    and rs: "rs = (if keep then m # rest else rest)"
    by (auto split: sum.splits)
  from Cons.IH [OF r] k rs show ?case by auto
qed

lemma name_matches_True:
  "name_matches q m = Inr True \<Longrightarrow>
     \<exists>s. map_of m ''Name'' = Some (JStr s) \<and> s \<noteq> [] \<and> includes_str (toLowerCase s) q"
  by (auto simp: name_matches_def split: option.splits if_splits jsval.splits)

text \<open>
  Claim C10: with a query that is not empty, every row \<open>searchMembers\<close> returns has a
  \<open>Name\<close> (a string that is not empty and contains the lowered query); with the empty
  query it returns the whole cached list, rows without a \<open>Name\<close> included.
\<close>

theorem searchMembers_drops_nameless_rows:
  "(query \<noteq> [] \<longrightarrow> searchMembers query st = Inr rs \<longrightarrow>
      (\<forall>m \<in> set rs. \<exists>s. map_of m ''Name'' = Some (JStr s) \<and> s \<noteq> []
                         \<and> includes_str (toLowerCase s) (toLowerCase query)))
   \<and> (getCached (getCacheKey ENDPOINTS_MEMBERS []) st = Some d \<longrightarrow> searchMembers [] st = Inr d)"
proof (intro conjI impI ballI)
  fix m
  assume q: "query \<noteq> []" and s: "searchMembers query st = Inr rs" and m: "m \<in> set rs"
  show "\<exists>s. map_of m ''Name'' = Some (JStr s) \<and> s \<noteq> []
             \<and> includes_str (toLowerCase s) (toLowerCase query)"
  proof (cases "getCached (getCacheKey ENDPOINTS_MEMBERS []) st")
    case None
    with s m show ?thesis by (simp add: searchMembers_def)
  next
    case (Some d')
    with q s have "filter_rows (name_matches (toLowerCase query)) d' = Inr rs"
      by (simp add: searchMembers_def Let_def)
    from filter_rows_Inr [OF this] m have "name_matches (toLowerCase query) m = Inr True" by simp
    then show ?thesis by (rule name_matches_True)
  qed
next
  assume "getCached (getCacheKey ENDPOINTS_MEMBERS []) st = Some d"
  then show "searchMembers [] st = Inr d" by (simp add: searchMembers_def)
qed

theorem searchMembers_drops_nameless_rows_witness:
  "searchMembers ''ALI''
     (setCached (getCacheKey ENDPOINTS_MEMBERS [])
        [[(''Name'', JStr ''Alice''), (''Id'', JStr ''1'')], [(''Id'', JStr ''2'')]] 1800000 0
        (new_cache :: store))
     = Inr [[(''Name'', JStr ''Alice''), (''Id'', JStr ''1'')]]
   \<and> (\<exists>s. map_of [(''Name'', JStr ''Alice''), (''Id'', JStr ''1'')] ''Name'' = Some (JStr s)
            \<and> includes_str (toLowerCase s) (toLowerCase ''ALI''))
   \<and> searchMembers []
     (setCached (getCacheKey ENDPOINTS_MEMBERS [])
        [[(''Name'', JStr ''Alice''), (''Id'', JStr ''1'')], [(''Id'', JStr ''2'')]] 1800000 0
        (new_cache :: store))
     = Inr [[(''Name'', JStr ''Alice''), (''Id'', JStr ''1'')], [(''Id'', JStr ''2'')]]"
proof -
  let ?d = "[[(''Name'', JStr ''Alice''), (''Id'', JStr ''1'')], [(''Id'', JStr ''2'')]]"
  let ?st = "setCached (getCacheKey ENDPOINTS_MEMBERS []) ?d 1800000 0 (new_cache :: store)"
  have c: "getCached (getCacheKey ENDPOINTS_MEMBERS []) ?st = Some ?d"
    by (simp add: getCached_def setCached_def)
  have l: "toLowerCase ''ALI'' = ''ali''" "toLowerCase ''Alice'' = ''alice''"
    by code_simp+
  have q: "''ALI'' \<noteq> []" by simp
  have s: "searchMembers ''ALI'' ?st = Inr [[(''Name'', JStr ''Alice''), (''Id'', JStr ''1'')]]"
    by (simp add: searchMembers_def c l name_matches_def)
  have m: "[(''Name'', JStr ''Alice''), (''Id'', JStr ''1'')]
             \<in> set [[(''Name'', JStr ''Alice''), (''Id'', JStr ''1'')]]"
    by simp
  from searchMembers_drops_nameless_rows [of "''ALI''" ?st
      "[[(''Name'', JStr ''Alice''), (''Id'', JStr ''1'')]]" ?d] c q s m
  show ?thesis by blast
qed

end
